theory Spec2Isabelle
  imports Main "HOL-Library.Word" "HOL-Library.Signed_Division" "HOL-Library.Sublist"
begin

section \<open>aiomixer: the data model of \<^verbatim>\<open>aiomixer.c\<close>\<close>

text \<open>
  The program is one C file. It reads the mixer's flat list of device descriptors into
  \<^verbatim>\<open>struct aiomixer\<close> (classes holding controls), and then runs a curses
  interface whose callbacks move the focus and write values to the device.

  Conventions of the embedding:
  \<^item> a pointer to a control is the pair (class slot, control slot); \<^verbatim>\<open>NULL\<close>
    is \<open>None\<close>;
  \<^item> \<^verbatim>\<open>int\<close> is \<open>int\<close>; the \<^verbatim>\<open>unsigned\<close> fields are \<open>nat\<close>
    with the wrap-around modulo \<open>2 ^ 32\<close> written where the code can reach it;
  \<^item> a C string is a \<open>string\<close> (the bytes before the terminating NUL);
  \<^item> \<^verbatim>\<open>nclasses\<close> and \<^verbatim>\<open>ncontrols\<close> are the lengths of the lists
    of populated slots; the slots behind them are zero-filled, since \<^verbatim>\<open>main\<close>
    starts from \<^verbatim>\<open>struct aiomixer x = {0}\<close>;
  \<^item> what C leaves undefined (a read through \<^verbatim>\<open>NULL\<close>, an index outside an
    array, a remainder by zero) is a value of \<open>error\<close>;
  \<^item> a loop that need not end is a \<^theory_text>\<open>partial_function\<close> into
    \<open>option\<close>: \<open>None\<close> is the run that never returns.

  The constants and the layout of \<^verbatim>\<open>mixer_devinfo\<close> and
  \<^verbatim>\<open>mixer_ctrl_t\<close> come from NetBSD's \<^verbatim>\<open>sys/audioio.h\<close>, which the
  file includes: \<^verbatim>\<open>AUDIO_MIXER_CLASS\<close> is 0, \<^verbatim>\<open>MAX_AUDIO_DEV_LEN\<close> is 16,
  a level is an \<^verbatim>\<open>u_char\<close> and there are \<^verbatim>\<open>AUDIO_MAX_CHANNELS = 8\<close> of
  them in a \<^verbatim>\<open>mixer_ctrl_t\<close>.
\<close>

definition MAX_CONTROLS :: nat where
  "MAX_CONTROLS = 64"

definition MAX_CLASSES :: nat where
  "MAX_CLASSES = 16"

definition MAX_CONTROL_LEN :: nat where
  "MAX_CONTROL_LEN = 64"

definition MAX_AUDIO_DEV_LEN :: nat where
  "MAX_AUDIO_DEV_LEN = 16"

definition AUDIO_MAX_CHANNELS :: nat where
  "AUDIO_MAX_CHANNELS = 8"

datatype mixer_type = AUDIO_MIXER_CLASS | AUDIO_MIXER_ENUM | AUDIO_MIXER_SET | AUDIO_MIXER_VALUE

datatype error = NullDeref | OutOfBounds | DivByZero

text \<open>
  One answer of the \<^verbatim>\<open>AUDIO_MIXER_DEVINFO\<close> ioctl. Its \<^verbatim>\<open>index\<close> is the
  position in the enumeration. The union \<^verbatim>\<open>un\<close> is three fields; \<open>m_e\<close> and
  \<open>m_s\<close> are the first \<^verbatim>\<open>num_mem\<close> members (label with ordinal or mask).
\<close>

record mixer_devinfo =
  m_type :: mixer_type
  m_mixer_class :: int
  m_next :: int
  m_prev :: int
  m_label :: string
  m_e :: "(string \<times> int) list"
  m_s :: "(string \<times> int) list"
  m_v_num_channels :: int
  m_v_delta :: int

text \<open>
  \<^verbatim>\<open>struct aiomixer_control\<close>. Of the widgets only what the code reads back is
  kept: \<open>value_widget\<close> is the value each of the eight slider slots shows.
\<close>

record aiomixer_control =
  name :: string
  dev :: int
  type :: mixer_type
  "next" :: int
  prev :: int
  current_chan :: int
  chans_unlocked :: bool
  e_member :: "(string \<times> int) list"
  s_member :: "(string \<times> int) list"
  v_num_channels :: int
  v_delta :: int
  value_widget :: "int list"

record aiomixer_class =
  class_name :: string
  class_id :: int
  controls :: "aiomixer_control list"

text \<open>
  \<^verbatim>\<open>struct aiomixer\<close>. \<open>class_buttons\<close> is the current button of the class
  selector and \<open>screen_rows\<close> is what \<^verbatim>\<open>getmaxy(x->screen->window)\<close> returns.
\<close>

record aiomixer =
  classes :: "aiomixer_class list"
  class_index :: nat
  control_index :: nat
  top_control :: nat
  class_buttons :: int
  screen_rows :: int

definition nclasses :: "aiomixer \<Rightarrow> nat" where
  "nclasses x = length (classes x)"

definition ncontrols :: "aiomixer_class \<Rightarrow> nat" where
  "ncontrols c = length (controls c)"

definition zero_control :: aiomixer_control where
  "zero_control =
     \<lparr>name = [], dev = 0, type = AUDIO_MIXER_CLASS, next = 0, prev = 0, current_chan = 0,
      chans_unlocked = False, e_member = [], s_member = [], v_num_channels = 0, v_delta = 0,
      value_widget = replicate 8 0\<rparr>"

definition zero_class :: aiomixer_class where
  "zero_class = \<lparr>class_name = [], class_id = 0, controls = []\<rparr>"

definition zero_aiomixer :: "int \<Rightarrow> aiomixer" where
  "zero_aiomixer rows =
     \<lparr>classes = [], class_index = 0, control_index = 0, top_control = 0, class_buttons = 0,
      screen_rows = rows\<rparr>"

section \<open>The catalog: \<^verbatim>\<open>aiomixer_devinfo\<close>\<close>

text \<open>\<^verbatim>\<open>aiomixer_get_class\<close>: the first class slot whose id is \<open>cid\<close>.\<close>

fun get_class_from :: "aiomixer_class list \<Rightarrow> nat \<Rightarrow> int \<Rightarrow> nat option" where
  "get_class_from [] i cid = None"
| "get_class_from (c # cs) i cid =
     (if class_id c = cid then Some i else get_class_from cs (Suc i) cid)"

definition aiomixer_get_class :: "aiomixer \<Rightarrow> int \<Rightarrow> nat option" where
  "aiomixer_get_class x cid = get_class_from (classes x) 0 cid"

text \<open>\<^verbatim>\<open>aiomixer_get_control\<close>: the first control, class by class, whose \<open>dev\<close> is \<open>d\<close>.\<close>

fun get_control_in :: "aiomixer_control list \<Rightarrow> nat \<Rightarrow> int \<Rightarrow> nat option" where
  "get_control_in [] j d = None"
| "get_control_in (c # cs) j d = (if dev c = d then Some j else get_control_in cs (Suc j) d)"

fun get_control_from :: "aiomixer_class list \<Rightarrow> nat \<Rightarrow> int \<Rightarrow> (nat \<times> nat) option" where
  "get_control_from [] i d = None"
| "get_control_from (c # cs) i d =
     (case get_control_in (controls c) 0 d of
        Some j \<Rightarrow> Some (i, j)
      | None \<Rightarrow> get_control_from cs (Suc i) d)"

definition aiomixer_get_control :: "aiomixer \<Rightarrow> int \<Rightarrow> (nat \<times> nat) option" where
  "aiomixer_get_control x d = get_control_from (classes x) 0 d"

definition control_at :: "aiomixer \<Rightarrow> nat \<times> nat \<Rightarrow> aiomixer_control" where
  "control_at x p = controls (classes x ! fst p) ! snd p"

text \<open>
  \<^verbatim>\<open>find_root_control\<close>. The loop reads \<^verbatim>\<open>ctrl->prev\<close> without asking
  whether \<^verbatim>\<open>aiomixer_get_control\<close> found anything: on \<open>None\<close> that read is the
  \<open>NullDeref\<close>. Nothing bounds the number of rounds.
\<close>

partial_function (option)
  find_root_loop :: "aiomixer \<Rightarrow> (nat \<times> nat) option \<Rightarrow> (error + nat \<times> nat) option" where
  "find_root_loop x ctrl =
     (case ctrl of
        None \<Rightarrow> Some (Inl NullDeref)
      | Some p \<Rightarrow>
          if prev (control_at x p) \<noteq> - 1
          then find_root_loop x (aiomixer_get_control x (prev (control_at x p)))
          else Some (Inr p))"

definition find_root_control :: "aiomixer \<Rightarrow> int \<Rightarrow> (error + nat \<times> nat) option" where
  "find_root_control x d = find_root_loop x (aiomixer_get_control x d)"

text \<open>
  The two \<^verbatim>\<open>printf\<close> conversions of the name formats and \<^verbatim>\<open>snprintf\<close>'s cut:
  \<^verbatim>\<open>%.16s\<close> prints at most 16 bytes, \<^verbatim>\<open>%16s\<close> pads on the left to 16 and
  never cuts, and a buffer of \<open>n\<close> bytes keeps \<open>n - 1\<close> of them.
\<close>

definition fmt_precision :: "nat \<Rightarrow> string \<Rightarrow> string" where
  "fmt_precision n s = take n s"

definition fmt_width :: "nat \<Rightarrow> string \<Rightarrow> string" where
  "fmt_width n s = replicate (n - length s) (CHR '' '') @ s"

definition snprintf :: "nat \<Rightarrow> string \<Rightarrow> string" where
  "snprintf n s = take (n - 1) s"

text \<open>\<^verbatim>\<open>"%.16s.%16s\n"\<close>, the format of the enum and the value case.\<close>

definition name_fmt_width :: "string \<Rightarrow> string \<Rightarrow> string" where
  "name_fmt_width root lbl =
     snprintf MAX_CONTROL_LEN (fmt_precision 16 root @ ''.'' @ fmt_width 16 lbl @ [CHR 0x0A])"

text \<open>\<^verbatim>\<open>"%.16s.%.16s\n"\<close>, the format of the set case.\<close>

definition name_fmt_precision :: "string \<Rightarrow> string \<Rightarrow> string" where
  "name_fmt_precision root lbl =
     snprintf MAX_CONTROL_LEN
       (fmt_precision 16 root @ ''.'' @ fmt_precision 16 lbl @ [CHR 0x0A])"

text \<open>
  \<^verbatim>\<open>memcpy(control->name, m.label.name, MAX_AUDIO_DEV_LEN)\<close> into a zeroed
  buffer of 64 bytes: the first 16 bytes of the label.
\<close>

definition memcpy_label :: "string \<Rightarrow> string" where
  "memcpy_label lbl = take MAX_AUDIO_DEV_LEN lbl"

text \<open>The first loop: every class descriptor, while a class slot is free.\<close>

fun devinfo_classes :: "mixer_devinfo list \<Rightarrow> aiomixer \<Rightarrow> aiomixer" where
  "devinfo_classes [] x = x"
| "devinfo_classes (m # ms) x =
     devinfo_classes ms
       (if m_type m = AUDIO_MIXER_CLASS \<and> nclasses x < MAX_CLASSES
        then x\<lparr>classes := classes x @
               [\<lparr>class_name = memcpy_label (m_label m), class_id = m_mixer_class m,
                 controls = []\<rparr>]\<rparr>
        else x)"

text \<open>
  \<^verbatim>\<open>control = &class->controls[class->ncontrols++]\<close>: the slot is counted
  before anything is stored in it, so until the assignments that follow it is a control
  of the catalog with \<open>dev = 0\<close> and \<open>prev = 0\<close>.
\<close>

definition claim_slot :: "aiomixer \<Rightarrow> nat \<Rightarrow> aiomixer" where
  "claim_slot x ci =
     x\<lparr>classes := (classes x)[ci := (classes x ! ci)
          \<lparr>controls := controls (classes x ! ci) @ [zero_control]\<rparr>]\<rparr>"

definition update_control ::
  "aiomixer \<Rightarrow> nat \<times> nat \<Rightarrow> (aiomixer_control \<Rightarrow> aiomixer_control) \<Rightarrow> aiomixer" where
  "update_control x p f =
     x\<lparr>classes := (classes x)[fst p := (classes x ! fst p)
          \<lparr>controls := (controls (classes x ! fst p))[snd p := f (control_at x p)]\<rparr>]\<rparr>"

text \<open>
  The naming step shared by the three cases; \<open>fmt\<close> is the case's format. The test
  \<^verbatim>\<open>prev_ctrl != NULL\<close> of the source is after the call, where the pointer
  cannot be \<^verbatim>\<open>NULL\<close> any more.
\<close>

definition set_name ::
  "(string \<Rightarrow> string \<Rightarrow> string) \<Rightarrow> aiomixer \<Rightarrow> nat \<times> nat \<Rightarrow> mixer_devinfo \<Rightarrow>
     (error + aiomixer) option" where
  "set_name fmt x p m =
     (if m_prev m \<noteq> - 1
      then (case find_root_control x (m_prev m) of
              None \<Rightarrow> None
            | Some (Inl e) \<Rightarrow> Some (Inl e)
            | Some (Inr prev_ctrl) \<Rightarrow>
                Some (Inr (update_control x p
                  (\<lambda>c. c\<lparr>name := fmt (name (control_at x prev_ctrl)) (m_label m)\<rparr>))))
      else Some (Inr (update_control x p (\<lambda>c. c\<lparr>name := memcpy_label (m_label m)\<rparr>))))"

text \<open>One round of the second loop: the \<^verbatim>\<open>switch (m.type)\<close> at index \<open>i\<close>.\<close>

definition devinfo_control :: "aiomixer \<Rightarrow> int \<Rightarrow> mixer_devinfo \<Rightarrow> (error + aiomixer) option" where
  "devinfo_control x i m =
     (case m_type m of
        AUDIO_MIXER_CLASS \<Rightarrow> Some (Inr x)
      | AUDIO_MIXER_ENUM \<Rightarrow>
          (case aiomixer_get_class x (m_mixer_class m) of
             None \<Rightarrow> Some (Inr x)
           | Some ci \<Rightarrow>
               if ncontrols (classes x ! ci) < MAX_CONTROLS
               then (let p = (ci, ncontrols (classes x ! ci)) in
                     case set_name name_fmt_width (claim_slot x ci) p m of
                       None \<Rightarrow> None
                     | Some (Inl e) \<Rightarrow> Some (Inl e)
                     | Some (Inr x') \<Rightarrow>
                         Some (Inr (update_control x' p
                           (\<lambda>c. c\<lparr>type := AUDIO_MIXER_ENUM, dev := i, next := m_next m,
                                  prev := m_prev m, e_member := m_e m\<rparr>))))
               else Some (Inr x))
      | AUDIO_MIXER_SET \<Rightarrow>
          (case aiomixer_get_class x (m_mixer_class m) of
             None \<Rightarrow> Some (Inr x)
           | Some ci \<Rightarrow>
               if ncontrols (classes x ! ci) < MAX_CONTROLS
               then (let p = (ci, ncontrols (classes x ! ci)) in
                     case set_name name_fmt_precision (claim_slot x ci) p m of
                       None \<Rightarrow> None
                     | Some (Inl e) \<Rightarrow> Some (Inl e)
                     | Some (Inr x') \<Rightarrow>
                         Some (Inr (update_control x' p
                           (\<lambda>c. c\<lparr>type := AUDIO_MIXER_SET, dev := i, next := m_next m,
                                  prev := m_prev m, s_member := m_s m\<rparr>))))
               else Some (Inr x))
      | AUDIO_MIXER_VALUE \<Rightarrow>
          (case aiomixer_get_class x (m_mixer_class m) of
             None \<Rightarrow> Some (Inr x)
           | Some ci \<Rightarrow>
               if ncontrols (classes x ! ci) < MAX_CONTROLS
               then (let p = (ci, ncontrols (classes x ! ci)) in
                     case set_name name_fmt_width (claim_slot x ci) p m of
                       None \<Rightarrow> None
                     | Some (Inl e) \<Rightarrow> Some (Inl e)
                     | Some (Inr x') \<Rightarrow>
                         Some (Inr (update_control x' p
                           (\<lambda>c. c\<lparr>type := AUDIO_MIXER_VALUE, dev := i, next := m_next m,
                                  prev := m_prev m,
                                  v_num_channels := m_v_num_channels m,
                                  v_delta := (if m_v_delta m \<noteq> 0 then m_v_delta m else 8)\<rparr>))))
               else Some (Inr x)))"

fun devinfo_controls :: "mixer_devinfo list \<Rightarrow> int \<Rightarrow> aiomixer \<Rightarrow> (error + aiomixer) option" where
  "devinfo_controls [] i x = Some (Inr x)"
| "devinfo_controls (m # ms) i x =
     (case devinfo_control x i m of
        None \<Rightarrow> None
      | Some (Inl e) \<Rightarrow> Some (Inl e)
      | Some (Inr x') \<Rightarrow> devinfo_controls ms (i + 1) x')"

definition aiomixer_devinfo :: "mixer_devinfo list \<Rightarrow> aiomixer \<Rightarrow> (error + aiomixer) option" where
  "aiomixer_devinfo ds x = devinfo_controls ds 0 (devinfo_classes ds x)"

section \<open>The viewport: \<^verbatim>\<open>control_within_bounds\<close> and the scroll offset\<close>

text \<open>
  \<^verbatim>\<open>&x->classes[x->class_index]\<close> and a control slot of it. A slot behind the
  populated ones is zero-filled.
\<close>

definition current_class :: "aiomixer \<Rightarrow> aiomixer_class" where
  "current_class x =
     (if class_index x < nclasses x then classes x ! class_index x else zero_class)"

definition control_slot :: "aiomixer_class \<Rightarrow> nat \<Rightarrow> aiomixer_control" where
  "control_slot c i = (if i < ncontrols c then controls c ! i else zero_control)"

text \<open>What the \<^verbatim>\<open>switch\<close> in the loop of \<^verbatim>\<open>control_within_bounds\<close> adds to \<open>y\<close>.\<close>

definition control_height :: "aiomixer_control \<Rightarrow> int" where
  "control_height c =
     (case type c of
        AUDIO_MIXER_ENUM \<Rightarrow> 3
      | AUDIO_MIXER_SET \<Rightarrow> 3
      | AUDIO_MIXER_VALUE \<Rightarrow> 3 * v_num_channels c
      | AUDIO_MIXER_CLASS \<Rightarrow> 0)"

text \<open>
  The \<^verbatim>\<open>for\<close> loop of \<^verbatim>\<open>control_within_bounds\<close>, from control \<open>i\<close> with
  the running row \<open>y\<close>. The counter stays below \<^verbatim>\<open>ncontrols\<close>, so it cannot wrap.
\<close>

function within_bounds_loop ::
  "aiomixer_control list \<Rightarrow> int \<Rightarrow> nat \<Rightarrow> nat \<Rightarrow> int \<Rightarrow> bool" where
  "within_bounds_loop cs max_y index i y =
     (if i < length cs
      then (if max_y \<le> y + control_height (cs ! i) then False
            else if i = index then True
            else within_bounds_loop cs max_y index (i + 1) (y + control_height (cs ! i)))
      else True)"
  by pat_completeness auto
termination
  by (relation "measure (\<lambda>(cs, max_y, index, i, y). length cs - i)") auto

declare within_bounds_loop.simps [simp del]

definition control_within_bounds :: "aiomixer \<Rightarrow> nat \<Rightarrow> bool" where
  "control_within_bounds x index =
     (if index < top_control x then False
      else within_bounds_loop (controls (current_class x)) (screen_rows x - 3) index
             (top_control x) 5)"

text \<open>
  \<^verbatim>\<open>while (!control_within_bounds(x, x->control_index)) x->top_control += 1;\<close>
  The offset is an \<^verbatim>\<open>unsigned\<close>, so the increment wraps.
\<close>

partial_function (option) scroll_down :: "aiomixer \<Rightarrow> aiomixer option" where
  "scroll_down x =
     (if \<not> control_within_bounds x (control_index x)
      then scroll_down (x\<lparr>top_control := (top_control x + 1) mod 2 ^ 32\<rparr>)
      else Some x)"

text \<open>
  The two \<^verbatim>\<open>if\<close>s of \<^verbatim>\<open>select_class_widget\<close> that move
  \<^verbatim>\<open>top_control\<close> once \<^verbatim>\<open>control_index\<close> is set.
\<close>

definition scroll_adjust :: "aiomixer \<Rightarrow> aiomixer option" where
  "scroll_adjust x =
     (let x1 = (if control_index x < top_control x
                then x\<lparr>top_control := control_index x\<rparr> else x)
      in if top_control x1 < control_index x1 then scroll_down x1 else Some x1)"

text \<open>
  Control \<open>i\<close> of the current class on its own, as the only control drawn: the test the
  loop of \<^verbatim>\<open>control_within_bounds\<close> makes when \<^verbatim>\<open>top_control\<close> is \<open>i\<close>.
\<close>

definition fits_alone :: "aiomixer \<Rightarrow> nat \<Rightarrow> bool" where
  "fits_alone x i =
     (5 + control_height (control_slot (current_class x) i) < screen_rows x - 3)"

section \<open>The focus: \<^verbatim>\<open>select_class_widget\<close>, \<^verbatim>\<open>select_class\<close> and the key callbacks\<close>

text \<open>
  The C functions block in \<^verbatim>\<open>activateCDKButtonbox\<close> and
  \<^verbatim>\<open>activateCDKSlider\<close> until the user leaves the widget. The model cuts each
  function at that call: \<open>select_class_widget\<close> runs up to the activation and returns
  the state with the widget that now has the focus, and \<open>select_class_widget_result\<close>
  is the rest of the function, run with the value the activation returned. The calls
  that only read the device into a widget or draw are left out of this part.

  \<open>ClassLevel\<close> is the class selector; \<open>ControlLevel ci i ch\<close> is control \<open>i\<close> of
  class \<open>ci\<close> (slider \<open>ch\<close> of a value control); \<open>Unfocused\<close> is the
  \<^verbatim>\<open>switch\<close> that matches no case and returns.
\<close>

datatype focus = ClassLevel | ControlLevel nat nat int | Unfocused

definition select_class :: "aiomixer \<Rightarrow> (aiomixer \<times> focus) option" where
  "select_class x = Some (x, ClassLevel)"

definition activate_control :: "aiomixer \<Rightarrow> nat \<Rightarrow> focus" where
  "activate_control x i =
     (case type (control_slot (current_class x) i) of
        AUDIO_MIXER_ENUM \<Rightarrow> ControlLevel (class_index x) i 0
      | AUDIO_MIXER_SET \<Rightarrow> ControlLevel (class_index x) i 0
      | AUDIO_MIXER_VALUE \<Rightarrow>
          ControlLevel (class_index x) i (current_chan (control_slot (current_class x) i))
      | AUDIO_MIXER_CLASS \<Rightarrow> Unfocused)"

function select_class_widget :: "aiomixer \<Rightarrow> int \<Rightarrow> (aiomixer \<times> focus) option" where
  "select_class_widget x index =
     (if index < 0 \<or> ncontrols (current_class x) < 1 then select_class x
      else if ncontrols (current_class x) \<le> nat index then select_class_widget x 0
      else (case scroll_adjust (x\<lparr>control_index := nat index\<rparr>) of
              None \<Rightarrow> None
            | Some x' \<Rightarrow> Some (x', activate_control x' (nat index))))"
  by pat_completeness auto
termination
  by (relation "measure (\<lambda>(x, index). if ncontrols (current_class x) \<le> nat index then 1 else 0)")
    auto

declare select_class_widget.simps [simp del]

definition set_current_chan :: "aiomixer \<Rightarrow> nat \<Rightarrow> int \<Rightarrow> aiomixer" where
  "set_current_chan x i ch =
     x\<lparr>classes := (classes x)[class_index x := (current_class x)
          \<lparr>controls := (controls (current_class x))
             [i := (control_slot (current_class x) i)\<lparr>current_chan := ch\<rparr>]\<rparr>]\<rparr>"


text \<open>Conversions between \<^verbatim>\<open>int\<close> and \<^verbatim>\<open>unsigned\<close> (32 bits, two's complement).\<close>

definition to_unsigned :: "int \<Rightarrow> nat" where
  "to_unsigned i = nat (i mod 2 ^ 32)"

definition to_int :: "nat \<Rightarrow> int" where
  "to_int u = (if u < 2 ^ 31 then int u else int u - 2 ^ 32)"

text \<open>
  The rest of \<^verbatim>\<open>select_class\<close> once the class selector has returned \<open>result\<close>.
\<close>

definition select_class_result :: "aiomixer \<Rightarrow> int \<Rightarrow> (aiomixer \<times> focus) option" where
  "select_class_result x result =
     select_class_widget
       (if result \<noteq> - 1
        then x\<lparr>control_index := (if to_unsigned result \<noteq> class_index x then 0
                                  else control_index x),
               class_index := to_unsigned result\<rparr>
        else x) 0"

section \<open>Writing to the device: \<^verbatim>\<open>set_level\<close>, \<^verbatim>\<open>set_enum\<close>, \<^verbatim>\<open>set_set\<close>\<close>

text \<open>
  The device and the screen are outside the program. A function that talks to them
  returns the list of what it did, in order: each ioctl with the request it passed, each
  warning on \<^verbatim>\<open>stderr\<close>, each slider or button box it set. What the device
  answers is an argument: \<open>rd\<close> is the level array after \<^verbatim>\<open>AUDIO_MIXER_READ\<close>
  (\<open>None\<close> when the ioctl fails) and \<open>wr\<close> says whether \<^verbatim>\<open>AUDIO_MIXER_WRITE\<close>
  succeeds. \<open>Slider_set\<close> is \<^verbatim>\<open>setCDKSliderValue\<close>; the slider keeps the value
  it is given.
\<close>

datatype event =
    Mixer_read int
  | Mixer_write_value int int "8 word list"
  | Mixer_write_ord int int
  | Mixer_write_mask int int
  | Warn_read int
  | Warn_write int
  | Slider_set nat int
  | Slider_draw nat
  | Buttonbox_set int

definition mixer_write :: "bool \<Rightarrow> int \<Rightarrow> event \<Rightarrow> event list" where
  "mixer_write wr d request = request # (if wr then [] else [Warn_write d])"

text \<open>
  The loop of the branch for channels that move together, over the channel numbers
  \<open>0 ..< num_channels\<close>: the level goes into \<^verbatim>\<open>dev.un.value.level[i]\<close> (an
  \<^verbatim>\<open>u_char\<close>) and into slider \<open>i\<close>. Both arrays have eight slots.
\<close>

fun set_all_channels ::
  "nat list \<Rightarrow> int \<Rightarrow> 8 word list \<times> int list \<times> event list \<Rightarrow>
     error + 8 word list \<times> int list \<times> event list" where
  "set_all_channels [] level s = Inr s"
| "set_all_channels (i # is) level (lv, vw, evs) =
     (if i < AUDIO_MAX_CHANNELS
      then set_all_channels is level
             (lv[i := word_of_int level], vw[i := level],
              evs @ [Slider_set i level, Slider_draw i])
      else Inl OutOfBounds)"

text \<open>
  \<^verbatim>\<open>dev.un.value.level\<close> after a successful read: the struct starts as
  \<^verbatim>\<open>{0}\<close>, and \<open>r\<close> is what the device stored in it.
\<close>

definition read_levels :: "8 word list \<Rightarrow> 8 word list" where
  "read_levels r = take AUDIO_MAX_CHANNELS (r @ replicate AUDIO_MAX_CHANNELS 0)"

definition set_level ::
  "8 word list option \<Rightarrow> bool \<Rightarrow> aiomixer_control \<Rightarrow> int \<Rightarrow> int \<Rightarrow>
     error + event list \<times> aiomixer_control" where
  "set_level rd wr control level channel =
     (let d = dev control; n = v_num_channels control;
          zero = replicate AUDIO_MAX_CHANNELS (0 :: 8 word)
      in if \<not> chans_unlocked control
         then (case set_all_channels [0 ..< nat n] level (zero, value_widget control, []) of
                 Inl e \<Rightarrow> Inl e
               | Inr (lv, vw, evs) \<Rightarrow>
                   Inr (evs @ mixer_write wr d (Mixer_write_value d n lv),
                        control\<lparr>value_widget := vw\<rparr>))
         else (case rd of
                 None \<Rightarrow> Inr ([Mixer_read d, Warn_read d], control)
               | Some r \<Rightarrow>
                   if 0 \<le> channel \<and> channel < int AUDIO_MAX_CHANNELS
                   then Inr ([Mixer_read d, Slider_set (nat channel) level,
                              Slider_draw (nat channel)] @
                             mixer_write wr d
                               (Mixer_write_value d n
                                  ((read_levels r)[nat channel := word_of_int level])),
                             control\<lparr>value_widget :=
                               (value_widget control)[nat channel := level]\<rparr>)
                   else Inl OutOfBounds))"

definition set_enum :: "bool \<Rightarrow> int \<Rightarrow> int \<Rightarrow> event list" where
  "set_enum wr dev_id ord = mixer_write wr dev_id (Mixer_write_ord dev_id ord)"

definition set_set :: "bool \<Rightarrow> int \<Rightarrow> int \<Rightarrow> event list" where
  "set_set wr dev_id msk = mixer_write wr dev_id (Mixer_write_mask dev_id msk)"

text \<open>The device requests among the events, in order.\<close>

fun is_request :: "event \<Rightarrow> bool" where
  "is_request (Mixer_read d) = True"
| "is_request (Mixer_write_value d n lv) = True"
| "is_request (Mixer_write_ord d v) = True"
| "is_request (Mixer_write_mask d v) = True"
| "is_request e = False"

definition requests :: "event list \<Rightarrow> event list" where
  "requests evs = filter is_request evs"

section \<open>The key callbacks\<close>

text \<open>
  A key as the toolkit passes it (\<^verbatim>\<open>chtype\<close>): a curses key code or a character.
  A callback ends in one of three ways: it calls \<^verbatim>\<open>quit\<close>, it returns its flag to
  the toolkit, or it calls \<^verbatim>\<open>select_class_widget\<close>, which moves the focus.
\<close>

datatype key = KEY_UP | KEY_DOWN | KEY_LEFT | KEY_RIGHT | Char char

datatype outcome = Quit | Return bool aiomixer | Refocus "(aiomixer \<times> focus) option"

text \<open>
  \<^verbatim>\<open>key_callback_class_buttons\<close>. \<^verbatim>\<open>getCDKButtonboxCurrentButton\<close> returns an
  \<^verbatim>\<open>int\<close> and \<^verbatim>\<open>x->nclasses\<close> is \<^verbatim>\<open>unsigned\<close>, so C converts
  \<^verbatim>\<open>current - 1\<close> to \<^verbatim>\<open>unsigned\<close> before it takes the remainder.
\<close>

definition key_callback_class_buttons :: "aiomixer \<Rightarrow> key \<Rightarrow> error + outcome" where
  "key_callback_class_buttons x k =
     (if k = Char (CHR 0x1B) then Inr Quit
      else if k = Char CHR ''k'' \<or> k = KEY_UP then Inr (Return True x)
      else if k = Char CHR ''j'' \<or> k = KEY_DOWN then Inr (Refocus (select_class_widget x 0))
      else if k = Char CHR ''h'' \<or> k = KEY_LEFT
      then (if nclasses x = 0 then Inl DivByZero
            else (let x' = x\<lparr>class_index := to_unsigned (class_buttons x - 1) mod nclasses x\<rparr>
                  in Inr (Return False
                       (if k \<noteq> KEY_LEFT then x'\<lparr>class_buttons := int (class_index x')\<rparr>
                        else x'))))
      else if k = Char CHR ''l'' \<or> k = KEY_RIGHT
      then (if nclasses x = 0 then Inl DivByZero
            else (let x' = x\<lparr>class_index := to_unsigned (class_buttons x + 1) mod nclasses x\<rparr>
                  in Inr (Return False
                       (if k \<noteq> KEY_RIGHT then x'\<lparr>class_buttons := int (class_index x')\<rparr>
                        else x'))))
      else Inr (Return False x))"

text \<open>
  The button box of an enum or set control, as far as the callback reads and writes it
  (the toolkit's \<^verbatim>\<open>currentButton\<close> and \<^verbatim>\<open>buttonCount\<close>, both \<^verbatim>\<open>int\<close>).
\<close>

record buttonbox =
  currentButton :: int
  buttonCount :: int

text \<open>
  \<^verbatim>\<open>member[i]\<close> of an enum or a set: the array has 32 slots, of which the
  first \<^verbatim>\<open>num_mem\<close> are the members and the others are zero.
\<close>

definition member_at :: "(string \<times> int) list \<Rightarrow> int \<Rightarrow> error + string \<times> int" where
  "member_at ms i =
     (if i < 0 \<or> 32 \<le> i then Inl OutOfBounds
      else if nat i < length ms then Inr (ms ! nat i)
      else Inr ([], 0))"

text \<open>
  The write of \<^verbatim>\<open>key_callback_control_buttons\<close> after it has moved \<open>current\<close>,
  and the \<^verbatim>\<open>setCDKButtonboxCurrentButton\<close> for the letter keys (the toolkit moves
  the button itself on an arrow key, after the callback). \<open>arrow\<close> is the arrow key of
  the direction.
\<close>

definition commit_member ::
  "bool \<Rightarrow> aiomixer_control \<Rightarrow> key \<Rightarrow> key \<Rightarrow> int \<Rightarrow> error + event list" where
  "commit_member wr control k arrow current =
     (let shown = (if k \<noteq> arrow then [Buttonbox_set current] else []) in
      if type control = AUDIO_MIXER_SET
      then (case member_at (s_member control) current of
              Inl e \<Rightarrow> Inl e
            | Inr m \<Rightarrow> Inr (set_set wr (dev control) (snd m) @ shown))
      else if type control = AUDIO_MIXER_ENUM
      then (case member_at (e_member control) current of
              Inl e \<Rightarrow> Inl e
            | Inr m \<Rightarrow> Inr (set_enum wr (dev control) (snd m) @ shown))
      else Inr shown)"

text \<open>
  \<^verbatim>\<open>key_callback_control_buttons\<close>. Here both operands of \<^verbatim>\<open>%\<close> are
  \<^verbatim>\<open>int\<close>: the remainder has the sign of the dividend (\<open>smod\<close>).
\<close>

definition key_callback_control_buttons ::
  "bool \<Rightarrow> aiomixer \<Rightarrow> buttonbox \<Rightarrow> key \<Rightarrow> error + event list \<times> outcome" where
  "key_callback_control_buttons wr x widget k =
     (let control = control_slot (current_class x) (control_index x);
          current = currentButton widget
      in if k = Char CHR ''k'' \<or> k = KEY_UP
         then Inr ([], Refocus (select_class_widget x
                 (to_int ((control_index x + 2 ^ 32 - 1) mod 2 ^ 32))))
         else if k = Char CHR ''j'' \<or> k = KEY_DOWN
         then Inr ([], Refocus (select_class_widget x
                 (to_int ((control_index x + 1) mod 2 ^ 32))))
         else if k = Char CHR ''h'' \<or> k = KEY_LEFT
         then (if buttonCount widget = 0 then Inl DivByZero
               else (case commit_member wr control k KEY_LEFT
                            ((current - 1) smod buttonCount widget) of
                       Inl e \<Rightarrow> Inl e
                     | Inr evs \<Rightarrow> Inr (evs, Return False x)))
         else if k = Char CHR ''l'' \<or> k = KEY_RIGHT
         then (if buttonCount widget = 0 then Inl DivByZero
               else (case commit_member wr control k KEY_RIGHT
                            ((current + 1) smod buttonCount widget) of
                       Inl e \<Rightarrow> Inl e
                     | Inr evs \<Rightarrow> Inr (evs, Return False x)))
         else Inr ([], Return False x))"

text \<open>
  \<^verbatim>\<open>key_callback_slider\<close>, on the slider of the current channel. The sliders are
  created with the range 0 to 255, which is what \<^verbatim>\<open>getCDKSliderLowValue\<close> and
  \<^verbatim>\<open>getCDKSliderHighValue\<close> return.
\<close>

definition put_control :: "aiomixer \<Rightarrow> nat \<Rightarrow> aiomixer_control \<Rightarrow> aiomixer" where
  "put_control x i c =
     x\<lparr>classes := (classes x)[class_index x := (current_class x)
          \<lparr>controls := (controls (current_class x))[i := c]\<rparr>]\<rparr>"

definition slider_step ::
  "8 word list option \<Rightarrow> bool \<Rightarrow> aiomixer \<Rightarrow> int \<Rightarrow> error + event list \<times> outcome" where
  "slider_step rd wr x new_value =
     (let control = control_slot (current_class x) (control_index x) in
      case set_level rd wr control new_value (current_chan control) of
        Inl e \<Rightarrow> Inl e
      | Inr (evs, control') \<Rightarrow> Inr (evs, Return False (put_control x (control_index x) control')))"

definition key_callback_slider ::
  "8 word list option \<Rightarrow> bool \<Rightarrow> aiomixer \<Rightarrow> key \<Rightarrow> error + event list \<times> outcome" where
  "key_callback_slider rd wr x k =
     (let control = control_slot (current_class x) (control_index x) in
      if k = Char CHR ''k'' \<or> k = KEY_UP
      then (if 0 < current_chan control
            then Inr ([], Refocus (select_class_widget
                   (set_current_chan x (control_index x) (current_chan control - 1))
                   (to_int (control_index x))))
            else Inr ([], Refocus (select_class_widget
                   (set_current_chan x (control_index x) 0)
                   (to_int ((control_index x + 2 ^ 32 - 1) mod 2 ^ 32)))))
      else if k = Char CHR ''j'' \<or> k = KEY_DOWN
      then (if current_chan control < v_num_channels control - 1
            then Inr ([], Refocus (select_class_widget
                   (set_current_chan x (control_index x) (current_chan control + 1))
                   (to_int (control_index x))))
            else Inr ([], Refocus (select_class_widget
                   (set_current_chan x (control_index x) 0)
                   (to_int ((control_index x + 1) mod 2 ^ 32)))))
      else if k = Char CHR ''h'' \<or> k = KEY_LEFT
      then (if current_chan control < 0 \<or> int AUDIO_MAX_CHANNELS \<le> current_chan control
            then Inl OutOfBounds
            else slider_step rd wr x
                   (max 0 (value_widget control ! nat (current_chan control) - v_delta control)))
      else if k = Char CHR ''l'' \<or> k = KEY_RIGHT
      then (if current_chan control < 0 \<or> int AUDIO_MAX_CHANNELS \<le> current_chan control
            then Inl OutOfBounds
            else slider_step rd wr x
                   (min 255 (value_widget control ! nat (current_chan control) + v_delta control)))
      else if k = Char CHR ''u''
      then Inr ([], Return False
             (put_control x (control_index x)
                (control\<lparr>chans_unlocked := \<not> chans_unlocked control\<rparr>)))
      else Inr ([], Return False x))"

section \<open>Inputs for the examples\<close>

text \<open>A descriptor with two enum members, two channels and no step of its own.\<close>

definition descriptor :: "mixer_type \<Rightarrow> int \<Rightarrow> int \<Rightarrow> string \<Rightarrow> mixer_devinfo" where
  "descriptor t cls pv l =
     \<lparr>m_type = t, m_mixer_class = cls, m_next = - 1, m_prev = pv, m_label = l,
      m_e = [(''off'', 0), (''on'', 1)], m_s = [(''mic'', 1), (''line'', 2)],
      m_v_num_channels = 2, m_v_delta = 0\<rparr>"

text \<open>Index 1 names index 2 as its parent: the parent comes later in the enumeration.\<close>

definition forward_parent :: "mixer_devinfo list" where
  "forward_parent =
     [descriptor AUDIO_MIXER_CLASS 0 (- 1) ''outputs'',
      descriptor AUDIO_MIXER_ENUM 0 2 ''mute'',
      descriptor AUDIO_MIXER_VALUE 0 (- 1) ''master'']"

text \<open>Index 1 names index 0 as its parent, and index 0 is the class, not a control.\<close>

definition parent_zero :: "mixer_devinfo list" where
  "parent_zero =
     [descriptor AUDIO_MIXER_CLASS 0 (- 1) ''outputs'',
      descriptor AUDIO_MIXER_ENUM 0 0 ''mute'']"

text \<open>A chain that resolves: index 2 and index 3 name index 1, which has no parent.\<close>

definition master_chain :: "mixer_devinfo list" where
  "master_chain =
     [descriptor AUDIO_MIXER_CLASS 0 (- 1) ''outputs'',
      descriptor AUDIO_MIXER_VALUE 0 (- 1) ''master'',
      descriptor AUDIO_MIXER_ENUM 0 1 ''mute'',
      descriptor AUDIO_MIXER_SET 0 1 ''source'']"

definition stereo_master :: aiomixer_control where
  "stereo_master =
     zero_control\<lparr>name := ''master'', dev := 1, type := AUDIO_MIXER_VALUE, next := - 1,
       prev := - 1, v_num_channels := 2, v_delta := 8,
       value_widget := [100, 100, 0, 0, 0, 0, 0, 0]\<rparr>"

definition mute_switch :: aiomixer_control where
  "mute_switch =
     zero_control\<lparr>name := ''mute'', dev := 2, type := AUDIO_MIXER_ENUM, next := - 1,
       prev := - 1, e_member := [(''off'', 0), (''on'', 1), (''auto'', 2)]\<rparr>"

text \<open>One class with the two controls, on a screen of \<open>rows\<close> rows.\<close>

definition outputs_mixer :: "int \<Rightarrow> aiomixer" where
  "outputs_mixer rows =
     \<lparr>classes = [\<lparr>class_name = ''outputs'', class_id = 0,
                  controls = [stereo_master, mute_switch]\<rparr>],
      class_index = 0, control_index = 0, top_control = 0, class_buttons = 0,
      screen_rows = rows\<rparr>"

text \<open>Three classes without controls, the selector on the first.\<close>

definition three_classes :: aiomixer where
  "three_classes =
     \<lparr>classes = [\<lparr>class_name = ''inputs'', class_id = 0, controls = []\<rparr>,
                 \<lparr>class_name = ''outputs'', class_id = 1, controls = []\<rparr>,
                 \<lparr>class_name = ''record'', class_id = 2, controls = []\<rparr>],
      class_index = 0, control_index = 0, top_control = 0, class_buttons = 0,
      screen_rows = 24\<rparr>"

text \<open>
  The catalog of \<open>parent_zero\<close> at the moment \<^verbatim>\<open>find_root_control\<close> is called for
  index 1: the class is there and its first control slot has just been counted.
\<close>

definition parent_zero_slot :: aiomixer where
  "parent_zero_slot = claim_slot (devinfo_classes parent_zero (zero_aiomixer 24)) 0"

section \<open>Notions for the proofs about the catalog\<close>

text \<open>
  \<open>stores x ci c\<close> is the catalog \<open>x\<close> with the control \<open>c\<close> behind the controls of
  class slot \<open>ci\<close>: what a round of the second loop has done when it has stored a
  control. \<open>catalog_ok ds k x\<close> says of a catalog built from the descriptors \<open>ds\<close>, the
  second loop having passed the first \<open>k\<close> of them: no more than 16 classes, no more than
  64 controls in a class, and every control of a class made from a control descriptor of
  that index, that type and that class's id.
\<close>

definition stores :: "aiomixer \<Rightarrow> nat \<Rightarrow> aiomixer_control \<Rightarrow> aiomixer" where
  "stores x ci c =
     x\<lparr>classes := (classes x)[ci := (classes x ! ci)\<lparr>controls := controls (classes x ! ci) @ [c]\<rparr>]\<rparr>"

definition catalog_ok :: "mixer_devinfo list \<Rightarrow> nat \<Rightarrow> aiomixer \<Rightarrow> bool" where
  "catalog_ok ds k x =
     (nclasses x \<le> MAX_CLASSES \<and>
      (\<forall>c\<in>set (classes x). ncontrols c \<le> MAX_CONTROLS \<and>
         (\<forall>ctl\<in>set (controls c). \<exists>i<k. i < length ds \<and> dev ctl = int i \<and>
             type ctl = m_type (ds ! i) \<and> type ctl \<noteq> AUDIO_MIXER_CLASS \<and>
             m_mixer_class (ds ! i) = class_id c)))"

section \<open>Lemmas on \<^verbatim>\<open>set_level\<close>\<close>

lemma set_all_channels_Inr:
  "\<forall>i\<in>set js. i < AUDIO_MAX_CHANNELS \<Longrightarrow>
   set_all_channels js level (lv, vw, evs) =
     Inr (fold (\<lambda>i l. l[i := word_of_int level]) js lv,
          fold (\<lambda>i v. v[i := level]) js vw,
          evs @ concat (map (\<lambda>i. [Slider_set i level, Slider_draw i]) js))"
  by (induction js arbitrary: lv vw evs) simp_all

lemma fold_update_length: "length (fold (\<lambda>i l. l[i := v]) js xs) = length xs"
  by (induction js arbitrary: xs) simp_all

lemma fold_update_hit:
  "i \<in> set js \<Longrightarrow> i < length xs \<Longrightarrow> fold (\<lambda>i l. l[i := v]) js xs ! i = v"
proof (induction js arbitrary: xs rule: rev_induct)
  case Nil
  then show ?case by simp
next
  case (snoc j js)
  show ?case
  proof (cases "i = j")
    case True
    with snoc.prems show ?thesis by (simp add: fold_update_length)
  next
    case False
    with snoc show ?thesis by (simp add: fold_update_length)
  qed
qed

lemma fold_update_miss:
  "i \<notin> set js \<Longrightarrow> fold (\<lambda>i l. l[i := v]) js xs ! i = xs ! i"
  by (induction js arbitrary: xs) auto

lemma requests_sliders:
  "requests (concat (map (\<lambda>i. [Slider_set i level, Slider_draw i]) js)) = []"
  by (induction js) (simp_all add: requests_def)

lemma requests_append: "requests (a @ b) = requests a @ requests b"
  by (simp add: requests_def)

lemma requests_mixer_write:
  "is_request rq \<Longrightarrow> requests (mixer_write wr d rq) = [rq]"
  by (simp add: requests_def mixer_write_def)

lemma read_levels_length: "length (read_levels r) = 8"
  by (simp add: read_levels_def AUDIO_MAX_CHANNELS_def)

lemma set_level_locked:
  assumes "\<not> chans_unlocked c" and "v_num_channels c \<le> 8"
  shows "set_level rd wr c level channel =
           Inr (concat (map (\<lambda>i. [Slider_set i level, Slider_draw i]) [0 ..< nat (v_num_channels c)]) @
                mixer_write wr (dev c)
                  (Mixer_write_value (dev c) (v_num_channels c)
                     (fold (\<lambda>i l. l[i := word_of_int level]) [0 ..< nat (v_num_channels c)]
                        (replicate 8 0))),
                c\<lparr>value_widget :=
                    fold (\<lambda>i v. v[i := level]) [0 ..< nat (v_num_channels c)] (value_widget c)\<rparr>)"
proof -
  have b: "\<forall>i\<in>set [0 ..< nat (v_num_channels c)]. i < AUDIO_MAX_CHANNELS"
    using assms(2) by (auto simp: AUDIO_MAX_CHANNELS_def)
  show ?thesis
    using assms(1)
    by (simp add: set_level_def Let_def set_all_channels_Inr [OF b] AUDIO_MAX_CHANNELS_def)
qed

lemma set_level_unlocked:
  assumes "chans_unlocked c" and "0 \<le> channel" and "channel < 8"
  shows "set_level (Some r) wr c level channel =
           Inr ([Mixer_read (dev c), Slider_set (nat channel) level, Slider_draw (nat channel)] @
                mixer_write wr (dev c)
                  (Mixer_write_value (dev c) (v_num_channels c)
                     ((read_levels r)[nat channel := word_of_int level])),
                c\<lparr>value_widget := (value_widget c)[nat channel := level]\<rparr>)"
  using assms by (simp add: set_level_def Let_def AUDIO_MAX_CHANNELS_def)

lemma set_level_read_fails:
  "chans_unlocked c \<Longrightarrow>
   set_level None wr c level channel = Inr ([Mixer_read (dev c), Warn_read (dev c)], c)"
  by (simp add: set_level_def Let_def)

lemma u_char_of_level:
  "0 \<le> level \<Longrightarrow> level \<le> 255 \<Longrightarrow> uint (word_of_int level :: 8 word) = level"
  by (simp add: uint_word_of_int)

section \<open>Channel lock in \<^verbatim>\<open>set_level\<close>\<close>

text \<open>
  Claim C1. \<^verbatim>\<open>set_level(fd, control, level, channel)\<close> on a value control with at most
  eight channels. When \<^verbatim>\<open>chans_unlocked\<close> is false (the channels move together)
  the function makes one device request, a write, and the array it writes holds the new
  level in every channel of the control; nothing is read. When \<^verbatim>\<open>chans_unlocked\<close>
  is true and the read succeeds, the requests are the read and then one write, and the
  written array is the array just read with the target channel alone replaced: every
  other channel is written back as the device reported it. The level is stored as an
  \<^verbatim>\<open>u_char\<close>, which is the level itself when it is between 0 and 255. All this
  holds whether or not the write then succeeds.
\<close>

theorem set_level_channel_lock:
  "(\<not> chans_unlocked c \<and> v_num_channels c \<le> 8 \<longrightarrow>
      (\<exists>evs c' lv. set_level rd wr c level channel = Inr (evs, c') \<and>
         requests evs = [Mixer_write_value (dev c) (v_num_channels c) lv] \<and>
         (\<forall>i. i < nat (v_num_channels c) \<longrightarrow> lv ! i = word_of_int level))) \<and>
   (chans_unlocked c \<and> 0 \<le> channel \<and> channel < 8 \<longrightarrow>
      (\<exists>evs c' lv. set_level (Some r) wr c level channel = Inr (evs, c') \<and>
         requests evs =
           [Mixer_read (dev c), Mixer_write_value (dev c) (v_num_channels c) lv] \<and>
         lv ! nat channel = word_of_int level \<and>
         (\<forall>i. i \<noteq> nat channel \<longrightarrow> lv ! i = read_levels r ! i))) \<and>
   (0 \<le> level \<and> level \<le> 255 \<longrightarrow> uint (word_of_int level :: 8 word) = level)"
proof (intro conjI impI)
  assume a: "\<not> chans_unlocked c \<and> v_num_channels c \<le> 8"
  let ?lv = "fold (\<lambda>i l. l[i := word_of_int level]) [0 ..< nat (v_num_channels c)]
               (replicate 8 (0 :: 8 word))"
  have "requests (concat (map (\<lambda>i. [Slider_set i level, Slider_draw i])
            [0 ..< nat (v_num_channels c)]) @
          mixer_write wr (dev c) (Mixer_write_value (dev c) (v_num_channels c) ?lv)) =
        [Mixer_write_value (dev c) (v_num_channels c) ?lv]"
    by (simp add: requests_append requests_sliders requests_mixer_write)
  moreover have "\<forall>i. i < nat (v_num_channels c) \<longrightarrow> ?lv ! i = word_of_int level"
  proof (intro allI impI)
    fix i
    assume i: "i < nat (v_num_channels c)"
    with a have "i < 8" by linarith
    with i show "?lv ! i = word_of_int level"
      by (intro fold_update_hit) simp_all
  qed
  ultimately show "\<exists>evs c' lv. set_level rd wr c level channel = Inr (evs, c') \<and>
         requests evs = [Mixer_write_value (dev c) (v_num_channels c) lv] \<and>
         (\<forall>i. i < nat (v_num_channels c) \<longrightarrow> lv ! i = word_of_int level)"
    using a by (simp add: set_level_locked)
next
  assume a: "chans_unlocked c \<and> 0 \<le> channel \<and> channel < 8"
  let ?lv = "(read_levels r)[nat channel := word_of_int level]"
  have "requests ([Mixer_read (dev c), Slider_set (nat channel) level, Slider_draw (nat channel)] @
          mixer_write wr (dev c) (Mixer_write_value (dev c) (v_num_channels c) ?lv)) =
        [Mixer_read (dev c), Mixer_write_value (dev c) (v_num_channels c) ?lv]"
    by (simp add: requests_def mixer_write_def)
  moreover have "?lv ! nat channel = word_of_int level"
  proof -
    from a have "nat channel < 8" by arith
    then show ?thesis by (simp add: read_levels_length)
  qed
  moreover have "\<forall>i. i \<noteq> nat channel \<longrightarrow> ?lv ! i = read_levels r ! i"
    by simp
  ultimately show "\<exists>evs c' lv. set_level (Some r) wr c level channel = Inr (evs, c') \<and>
         requests evs =
           [Mixer_read (dev c), Mixer_write_value (dev c) (v_num_channels c) lv] \<and>
         lv ! nat channel = word_of_int level \<and>
         (\<forall>i. i \<noteq> nat channel \<longrightarrow> lv ! i = read_levels r ! i)"
    using a by (simp add: set_level_unlocked)
next
  assume "0 \<le> level \<and> level \<le> 255"
  then show "uint (word_of_int level :: 8 word) = level"
    by (simp add: u_char_of_level)
qed

theorem set_level_channel_lock_witness:
  "\<not> chans_unlocked stereo_master \<and> v_num_channels stereo_master \<le> 8 \<and>
   (\<exists>evs c'. set_level None True stereo_master 60 1 = Inr (evs, c') \<and>
      requests evs = [Mixer_write_value 1 2 [60, 60, 0, 0, 0, 0, 0, 0]]) \<and>
   chans_unlocked (stereo_master\<lparr>chans_unlocked := True\<rparr>) \<and> (0 :: int) \<le> 1 \<and> (1 :: int) < 8 \<and>
   (\<exists>evs c'. set_level (Some [10, 20]) True (stereo_master\<lparr>chans_unlocked := True\<rparr>) 60 1 =
        Inr (evs, c') \<and>
      requests evs = [Mixer_read 1, Mixer_write_value 1 2 [10, 60, 0, 0, 0, 0, 0, 0]]) \<and>
   (0 :: int) \<le> 60 \<and> (60 :: int) \<le> 255 \<and> uint (word_of_int 60 :: 8 word) = 60"
  using set_level_channel_lock [of stereo_master None True 60 1 "[10, 20]"]
    set_level_channel_lock [of "stereo_master\<lparr>chans_unlocked := True\<rparr>" None True 60 1 "[10, 20]"]
  by (simp add: stereo_master_def zero_control_def set_level_def AUDIO_MAX_CHANNELS_def
      read_levels_def requests_def mixer_write_def upt_rec [of 0] upt_rec [of 1] upt_rec [of 2]
      eval_nat_numeral)

lemmas set_level_eval = stereo_master_def zero_control_def set_level_def AUDIO_MAX_CHANNELS_def
  read_levels_def requests_def mixer_write_def upt_rec [of 0] upt_rec [of 1] upt_rec [of 2]
  eval_nat_numeral

section \<open>A failed read or write in \<^verbatim>\<open>set_level\<close>\<close>

text \<open>
  Claim C3, as the code has it. A failed read (channels independent) prints the warning
  and returns: no write is requested and the control with its sliders is as before. A
  failed write prints the warning too, but the sliders were set before the write was
  tried: the call leaves the same sliders as the call whose write succeeds, the new level
  on every channel of the control when the channels move together and on the target
  channel otherwise. Nothing puts the old values back.
\<close>

theorem set_level_failure:
  "(chans_unlocked c \<longrightarrow>
      set_level None wr c level channel = Inr ([Mixer_read (dev c), Warn_read (dev c)], c)) \<and>
   (\<not> chans_unlocked c \<and> v_num_channels c \<le> 8 \<longrightarrow>
      (\<exists>evs c'. set_level rd False c level channel = Inr (evs @ [Warn_write (dev c)], c') \<and>
         set_level rd True c level channel = Inr (evs, c') \<and>
         (\<forall>i. i < nat (v_num_channels c) \<and> i < length (value_widget c) \<longrightarrow>
              value_widget c' ! i = level))) \<and>
   (chans_unlocked c \<and> 0 \<le> channel \<and> channel < 8 \<longrightarrow>
      (\<exists>evs. set_level (Some r) False c level channel =
           Inr (evs @ [Warn_write (dev c)],
                c\<lparr>value_widget := (value_widget c)[nat channel := level]\<rparr>) \<and>
         set_level (Some r) True c level channel =
           Inr (evs, c\<lparr>value_widget := (value_widget c)[nat channel := level]\<rparr>)))"
proof (intro conjI impI)
  assume "chans_unlocked c"
  then show "set_level None wr c level channel = Inr ([Mixer_read (dev c), Warn_read (dev c)], c)"
    by (rule set_level_read_fails)
next
  assume a: "\<not> chans_unlocked c \<and> v_num_channels c \<le> 8"
  have "\<forall>i. i < nat (v_num_channels c) \<and> i < length (value_widget c) \<longrightarrow>
      fold (\<lambda>i v. v[i := level]) [0 ..< nat (v_num_channels c)] (value_widget c) ! i = level"
    by (simp add: fold_update_hit)
  with a show "\<exists>evs c'. set_level rd False c level channel = Inr (evs @ [Warn_write (dev c)], c') \<and>
         set_level rd True c level channel = Inr (evs, c') \<and>
         (\<forall>i. i < nat (v_num_channels c) \<and> i < length (value_widget c) \<longrightarrow>
              value_widget c' ! i = level)"
    by (simp add: set_level_locked mixer_write_def)
next
  assume "chans_unlocked c \<and> 0 \<le> channel \<and> channel < 8"
  then show "\<exists>evs. set_level (Some r) False c level channel =
           Inr (evs @ [Warn_write (dev c)],
                c\<lparr>value_widget := (value_widget c)[nat channel := level]\<rparr>) \<and>
         set_level (Some r) True c level channel =
           Inr (evs, c\<lparr>value_widget := (value_widget c)[nat channel := level]\<rparr>)"
    by (simp add: set_level_unlocked mixer_write_def)
qed

text \<open>
  The claim as it was stated asks for unchanged sliders after any failure. Both sliders
  of the stereo control show 100; the channels move together; the write of level 50
  fails; both sliders show 50 afterwards.
\<close>

theorem set_level_failure_counterexample:
  "set_level None False stereo_master 50 0 =
     Inr ([Slider_set 0 50, Slider_draw 0, Slider_set 1 50, Slider_draw 1,
           Mixer_write_value 1 2 [50, 50, 0, 0, 0, 0, 0, 0], Warn_write 1],
          stereo_master\<lparr>value_widget := [50, 50, 0, 0, 0, 0, 0, 0]\<rparr>) \<and>
   value_widget stereo_master = [100, 100, 0, 0, 0, 0, 0, 0]"
  by (simp add: set_level_eval)

theorem set_level_failure_witness:
  "chans_unlocked (stereo_master\<lparr>chans_unlocked := True\<rparr>) \<and>
   set_level None True (stereo_master\<lparr>chans_unlocked := True\<rparr>) 50 0 =
     Inr ([Mixer_read 1, Warn_read 1], stereo_master\<lparr>chans_unlocked := True\<rparr>) \<and>
   \<not> chans_unlocked stereo_master \<and> v_num_channels stereo_master \<le> 8 \<and>
   set_level None False stereo_master 50 0 =
     Inr ([Slider_set 0 50, Slider_draw 0, Slider_set 1 50, Slider_draw 1,
           Mixer_write_value 1 2 [50, 50, 0, 0, 0, 0, 0, 0]] @ [Warn_write 1],
          stereo_master\<lparr>value_widget := [50, 50, 0, 0, 0, 0, 0, 0]\<rparr>) \<and>
   (0 :: int) \<le> 1 \<and> (1 :: int) < 8 \<and>
   set_level (Some [10, 20]) False (stereo_master\<lparr>chans_unlocked := True\<rparr>) 50 1 =
     Inr ([Mixer_read 1, Slider_set 1 50, Slider_draw 1,
           Mixer_write_value 1 2 [10, 50, 0, 0, 0, 0, 0, 0]] @ [Warn_write 1],
          stereo_master\<lparr>chans_unlocked := True, value_widget := [100, 50, 0, 0, 0, 0, 0, 0]\<rparr>)"
  using set_level_failure [of "stereo_master\<lparr>chans_unlocked := True\<rparr>" True 50 0 None "[10, 20]"]
    set_level_failure [of stereo_master True 50 0 None "[10, 20]"]
    set_level_failure [of "stereo_master\<lparr>chans_unlocked := True\<rparr>" True 50 1 None "[10, 20]"]
  by (simp add: set_level_eval)

section \<open>Lemmas on the viewport\<close>



lemma current_class_top [simp]: "current_class (x\<lparr>top_control := t\<rparr>) = current_class x"
  by (simp add: current_class_def nclasses_def)

lemma current_class_control_index [simp]: "current_class (x\<lparr>control_index := t\<rparr>) = current_class x"
  by (simp add: current_class_def nclasses_def)

lemma fits_alone_top [simp]: "fits_alone (x\<lparr>top_control := t\<rparr>) i = fits_alone x i"
  by (simp add: fits_alone_def)

lemma fits_alone_control_index [simp]: "fits_alone (x\<lparr>control_index := t\<rparr>) i = fits_alone x i"
  by (simp add: fits_alone_def)




lemmas example_defs = outputs_mixer_def stereo_master_def mute_switch_def zero_control_def
  current_class_def nclasses_def ncontrols_def control_slot_def control_height_def
  zero_class_def




section \<open>\<^verbatim>\<open>control_within_bounds\<close> and the scroll adjustment\<close>




section \<open>Lemmas on the focus\<close>

lemma select_class_widget_class_level:
  "index < 0 \<or> ncontrols (current_class x) < 1 \<Longrightarrow>
   select_class_widget x index = Some (x, ClassLevel)"
  by (subst select_class_widget.simps) (simp add: select_class_def)

lemma activate_control_frame [simp]:
  "activate_control (x\<lparr>control_index := i, top_control := t\<rparr>) j = activate_control x j"
  by (simp add: activate_control_def split: mixer_type.split)

lemma activate_control_not_class [simp]: "activate_control x j \<noteq> ClassLevel"
  by (simp add: activate_control_def split: mixer_type.split)




lemma nclasses_set_current_chan [simp]: "nclasses (set_current_chan x i ch) = nclasses x"
  by (simp add: set_current_chan_def nclasses_def)

lemma class_index_set_current_chan [simp]:
  "class_index (set_current_chan x i ch) = class_index x"
  by (simp add: set_current_chan_def)

lemma screen_rows_set_current_chan [simp]:
  "screen_rows (set_current_chan x i ch) = screen_rows x"
  by (simp add: set_current_chan_def)

lemma current_class_set_current_chan:
  "current_class (set_current_chan x i ch) =
     (if class_index x < nclasses x
      then (current_class x)\<lparr>controls := (controls (current_class x))
             [i := (control_slot (current_class x) i)\<lparr>current_chan := ch\<rparr>]\<rparr>
      else zero_class)"
  by (simp add: current_class_def set_current_chan_def nclasses_def)

lemma ncontrols_set_current_chan [simp]:
  "ncontrols (current_class (set_current_chan x i ch)) = ncontrols (current_class x)"
  by (simp add: current_class_set_current_chan ncontrols_def) (simp add: current_class_def)

lemma control_height_set_current_chan [simp]:
  "control_height (control_slot (current_class (set_current_chan x i ch)) k) =
   control_height (control_slot (current_class x) k)"
proof (cases "class_index x < nclasses x")
  case True
  then show ?thesis
    by (cases "k = i")
      (auto simp: current_class_set_current_chan control_slot_def ncontrols_def control_height_def
        split: mixer_type.split)
next
  case False
  then show ?thesis
    by (simp add: current_class_set_current_chan) (simp add: current_class_def)
qed

lemma fits_alone_set_current_chan [simp]:
  "fits_alone (set_current_chan x i ch) k = fits_alone x k"
  by (simp add: fits_alone_def)

lemma to_int_minus_one: "to_int 4294967295 = - 1"
  by (simp add: to_int_def)

section \<open>Advancing past a control\<close>




section \<open>Retreating past the first control\<close>

text \<open>
  Claim C10. A call of \<^verbatim>\<open>select_class_widget\<close> with an index below zero, or in a
  class without controls, activates the class selector and leaves the state as it is; no
  control slot is read. That is what happens on the key up (or \<open>k\<close>) on the first
  control, whether it is a button box or the first slider of a value control (there
  \<^verbatim>\<open>x->control_index - 1\<close> wraps to the largest \<^verbatim>\<open>unsigned\<close>, which is
  \<open>- 1\<close> as the \<^verbatim>\<open>int\<close> argument), on the key down in the class selector of a
  class without controls, and when the class selector returns such a class.
\<close>

theorem retreat_reaches_class_level:
  "(index < 0 \<or> ncontrols (current_class x) < 1 \<longrightarrow>
      select_class_widget x index = Some (x, ClassLevel)) \<and>
   (control_index x = 0 \<and> (k = KEY_UP \<or> k = Char CHR ''k'') \<longrightarrow>
      key_callback_control_buttons wr x w k = Inr ([], Refocus (Some (x, ClassLevel)))) \<and>
   (control_index x = 0 \<and> (k = KEY_UP \<or> k = Char CHR ''k'') \<and>
    current_chan (control_slot (current_class x) 0) \<le> 0 \<longrightarrow>
      key_callback_slider rd wr x k =
        Inr ([], Refocus (Some (set_current_chan x 0 0, ClassLevel)))) \<and>
   (ncontrols (current_class x) = 0 \<and> (k = KEY_DOWN \<or> k = Char CHR ''j'') \<longrightarrow>
      key_callback_class_buttons x k = Inr (Refocus (Some (x, ClassLevel)))) \<and>
   (result \<noteq> - 1 \<and> ncontrols (current_class (x\<lparr>class_index := to_unsigned result\<rparr>)) = 0 \<longrightarrow>
      (\<exists>x'. select_class_result x result = Some (x', ClassLevel) \<and>
            class_index x' = to_unsigned result))"
proof (intro conjI impI)
  assume "index < 0 \<or> ncontrols (current_class x) < 1"
  then show "select_class_widget x index = Some (x, ClassLevel)"
    by (rule select_class_widget_class_level)
next
  assume "control_index x = 0 \<and> (k = KEY_UP \<or> k = Char CHR ''k'')"
  then show "key_callback_control_buttons wr x w k = Inr ([], Refocus (Some (x, ClassLevel)))"
    by (auto simp: key_callback_control_buttons_def to_int_minus_one
        select_class_widget_class_level)
next
  assume "control_index x = 0 \<and> (k = KEY_UP \<or> k = Char CHR ''k'') \<and>
    current_chan (control_slot (current_class x) 0) \<le> 0"
  then show "key_callback_slider rd wr x k =
        Inr ([], Refocus (Some (set_current_chan x 0 0, ClassLevel)))"
    by (auto simp: key_callback_slider_def to_int_minus_one select_class_widget_class_level)
next
  assume "ncontrols (current_class x) = 0 \<and> (k = KEY_DOWN \<or> k = Char CHR ''j'')"
  then show "key_callback_class_buttons x k = Inr (Refocus (Some (x, ClassLevel)))"
    by (auto simp: key_callback_class_buttons_def select_class_widget_class_level)
next
  assume a: "result \<noteq> - 1 \<and> ncontrols (current_class (x\<lparr>class_index := to_unsigned result\<rparr>)) = 0"
  let ?x = "x\<lparr>control_index := (if to_unsigned result \<noteq> class_index x then 0 else control_index x),
               class_index := to_unsigned result\<rparr>"
  have "current_class ?x = current_class (x\<lparr>class_index := to_unsigned result\<rparr>)"
    by (simp add: current_class_def nclasses_def)
  with a have "select_class_widget ?x 0 = Some (?x, ClassLevel)"
    by (intro select_class_widget_class_level) simp
  with a show "\<exists>x'. select_class_result x result = Some (x', ClassLevel) \<and>
            class_index x' = to_unsigned result"
    by (simp add: select_class_result_def)
qed

theorem retreat_reaches_class_level_witness:
  "((- 1 :: int) < 0 \<or> ncontrols (current_class (outputs_mixer 24)) < 1) \<and>
   select_class_widget (outputs_mixer 24) (- 1) = Some (outputs_mixer 24, ClassLevel) \<and>
   control_index (outputs_mixer 24) = 0 \<and>
   key_callback_control_buttons True (outputs_mixer 24) \<lparr>currentButton = 0, buttonCount = 3\<rparr> KEY_UP =
     Inr ([], Refocus (Some (outputs_mixer 24, ClassLevel))) \<and>
   current_chan (control_slot (current_class (outputs_mixer 24)) 0) \<le> 0 \<and>
   key_callback_slider None True (outputs_mixer 24) KEY_UP =
     Inr ([], Refocus (Some (outputs_mixer 24, ClassLevel))) \<and>
   ncontrols (current_class three_classes) = 0 \<and>
   key_callback_class_buttons three_classes KEY_DOWN =
     Inr (Refocus (Some (three_classes, ClassLevel))) \<and>
   (1 :: int) \<noteq> - 1 \<and>
   ncontrols (current_class (three_classes\<lparr>class_index := to_unsigned 1\<rparr>)) = 0 \<and>
   select_class_result three_classes 1 = Some (three_classes\<lparr>class_index := 1\<rparr>, ClassLevel)"
  using retreat_reaches_class_level
      [of "- 1" "outputs_mixer 24" KEY_UP True "\<lparr>currentButton = 0, buttonCount = 3\<rparr>" None 1]
    retreat_reaches_class_level
      [of 0 three_classes KEY_DOWN True "\<lparr>currentButton = 0, buttonCount = 3\<rparr>" None 1]
  by (simp add: example_defs three_classes_def set_current_chan_def to_unsigned_def
      select_class_result_def select_class_widget.simps select_class_def)

section \<open>Lemmas on the catalog\<close>

lemmas devinfo_eval = forward_parent_def parent_zero_def master_chain_def descriptor_def
  aiomixer_devinfo_def devinfo_control_def set_name_def claim_slot_def
  update_control_def control_at_def find_root_control_def aiomixer_get_control_def
  aiomixer_get_class_def zero_aiomixer_def zero_control_def nclasses_def ncontrols_def
  MAX_CLASSES_def MAX_CONTROLS_def memcpy_label_def MAX_AUDIO_DEV_LEN_def MAX_CONTROL_LEN_def
  name_fmt_width_def name_fmt_precision_def snprintf_def fmt_width_def fmt_precision_def

lemma parent_zero_get: "aiomixer_get_control parent_zero_slot 0 = Some (0, 0)"
  by (simp add: parent_zero_slot_def devinfo_eval)

lemma parent_zero_prev: "prev (control_at parent_zero_slot (0, 0)) = 0"
  by (simp add: parent_zero_slot_def devinfo_eval)

lemma parent_zero_loop:
  "find_root_loop x c = Some y \<Longrightarrow> x = parent_zero_slot \<and> c = Some (0, 0) \<longrightarrow> False"
proof -
  assume a: "find_root_loop x c = Some y"
  have "(case (x, c) of (x, c) \<Rightarrow> \<lambda>y. x = parent_zero_slot \<and> c = Some (0, 0) \<longrightarrow> False) y"
  proof (rule find_root_loop.raw_induct
      [where P = "\<lambda>x c y. x = parent_zero_slot \<and> c = Some (0, 0) \<longrightarrow> False"])
    show "(case (x, c) of (x, c) \<Rightarrow> find_root_loop x c) = Some y"
      using a by simp
  next
    fix f x c y
    assume IH: "\<And>x c y. f x c = Some y \<Longrightarrow> x = parent_zero_slot \<and> c = Some (0, 0) \<longrightarrow> False"
      and body: "(case c of None \<Rightarrow> Some (Inl NullDeref)
         | Some p \<Rightarrow> if prev (control_at x p) \<noteq> - 1
             then f x (aiomixer_get_control x (prev (control_at x p))) else Some (Inr p)) = Some y"
    show "x = parent_zero_slot \<and> c = Some (0, 0) \<longrightarrow> False"
    proof
      assume "x = parent_zero_slot \<and> c = Some (0, 0)"
      with body have "f parent_zero_slot (Some (0, 0)) = Some y"
        by (simp add: parent_zero_get parent_zero_prev)
      with IH show False by blast
    qed
  qed
  then show ?thesis by simp
qed

lemma parent_zero_diverges: "find_root_control parent_zero_slot 0 = None"
proof (cases "find_root_control parent_zero_slot 0")
  case None
  then show ?thesis .
next
  case (Some y)
  then have "find_root_loop parent_zero_slot (Some (0, 0)) = Some y"
    by (simp add: find_root_control_def parent_zero_get)
  then show ?thesis using parent_zero_loop by blast
qed

lemma get_class_from_bound:
  "get_class_from cs k cid = Some i \<Longrightarrow> k \<le> i \<and> i < k + length cs"
  by (induction cs arbitrary: k) (fastforce split: if_splits)+

lemma aiomixer_get_class_bound:
  "aiomixer_get_class x cid = Some ci \<Longrightarrow> ci < length (classes x)"
  using get_class_from_bound [of "classes x" 0 cid ci] by (simp add: aiomixer_get_class_def)









text \<open>
  What holds of the catalog whenever \<^verbatim>\<open>aiomixer_devinfo\<close> returns, and that it
  returns when no descriptor names a parent.
\<close>

lemma devinfo_classes_nclasses:
  "nclasses x \<le> MAX_CLASSES \<Longrightarrow> nclasses (devinfo_classes ds x) \<le> MAX_CLASSES"
  by (induction ds arbitrary: x) (auto simp: nclasses_def)

lemma devinfo_classes_empty:
  "\<forall>c\<in>set (classes x). controls c = [] \<Longrightarrow>
   \<forall>c\<in>set (classes (devinfo_classes ds x)). controls c = []"
proof (induction ds arbitrary: x)
  case Nil
  then show ?case by simp
next
  case (Cons m ms)
  let ?x = "if m_type m = AUDIO_MIXER_CLASS \<and> nclasses x < MAX_CLASSES
        then x\<lparr>classes := classes x @
               [\<lparr>class_name = memcpy_label (m_label m), class_id = m_mixer_class m,
                 controls = []\<rparr>]\<rparr>
        else x"
  have "\<forall>c\<in>set (classes ?x). controls c = []"
    using Cons.prems by auto
  from Cons.IH [OF this] show ?case by simp
qed

lemma get_class_from_id:
  "get_class_from cs k cid = Some i \<Longrightarrow> class_id (cs ! (i - k)) = cid"
proof (induction cs arbitrary: k)
  case Nil
  then show ?case by simp
next
  case (Cons c cs)
  show ?case
  proof (cases "class_id c = cid")
    case True
    with Cons.prems show ?thesis by simp
  next
    case False
    with Cons.prems have rec: "get_class_from cs (Suc k) cid = Some i" by simp
    then have "Suc k \<le> i" using get_class_from_bound by blast
    then have "(c # cs) ! (i - k) = cs ! (i - Suc k)" by (simp add: nth_Cons')
    with Cons.IH [OF rec] show ?thesis by simp
  qed
qed

lemma aiomixer_get_class_id:
  "aiomixer_get_class x cid = Some ci \<Longrightarrow> class_id (classes x ! ci) = cid"
  using get_class_from_id [of "classes x" 0 cid ci] by (simp add: aiomixer_get_class_def)

lemma update_claimed_slot:
  "ci < length (classes x) \<Longrightarrow>
   update_control (stores x ci c) (ci, ncontrols (classes x ! ci)) f = stores x ci (f c)"
  by (simp add: update_control_def stores_def control_at_def ncontrols_def)

lemma claim_slot_stores: "claim_slot x ci = stores x ci zero_control"
  by (simp add: claim_slot_def stores_def)

lemma set_name_stores:
  assumes "ci < length (classes x)"
    and "set_name fmt (stores x ci c) (ci, ncontrols (classes x ! ci)) m = Some (Inr x1)"
  shows "\<exists>n. x1 = stores x ci (c\<lparr>name := n\<rparr>)"
  using assms
  by (auto simp: set_name_def update_claimed_slot split: if_splits option.splits sum.splits)

lemma devinfo_control_cases:
  assumes "devinfo_control x i m = Some (Inr x')"
  shows "x' = x \<or>
         (\<exists>ci c. aiomixer_get_class x (m_mixer_class m) = Some ci \<and>
            ncontrols (classes x ! ci) < MAX_CONTROLS \<and> x' = stores x ci c \<and>
            dev c = i \<and> type c = m_type m \<and> m_type m \<noteq> AUDIO_MIXER_CLASS)"
proof (cases "m_type m = AUDIO_MIXER_CLASS")
  case True
  with assms show ?thesis by (simp add: devinfo_control_def)
next
  case False
  show ?thesis
  proof (cases "aiomixer_get_class x (m_mixer_class m)")
    case None
    with assms show ?thesis by (cases "m_type m") (simp_all add: devinfo_control_def)
  next
    case (Some ci)
    then have ci: "ci < length (classes x)" by (rule aiomixer_get_class_bound)
    show ?thesis
    proof (cases "ncontrols (classes x ! ci) < MAX_CONTROLS")
      case False
      with assms Some show ?thesis by (cases "m_type m") (simp_all add: devinfo_control_def)
    next
      case True
      let ?p = "(ci, ncontrols (classes x ! ci))"
      let ?fmt = "if m_type m = AUDIO_MIXER_SET then name_fmt_precision else name_fmt_width"
      from assms Some True \<open>m_type m \<noteq> AUDIO_MIXER_CLASS\<close>
      obtain x1 where x1: "set_name ?fmt (stores x ci zero_control) ?p m = Some (Inr x1)"
        by (cases "m_type m")
          (auto simp: devinfo_control_def Let_def claim_slot_stores split: option.splits sum.splits)
      from set_name_stores [OF ci x1] obtain n where n: "x1 = stores x ci (zero_control\<lparr>name := n\<rparr>)"
        by blast
      from assms Some True \<open>m_type m \<noteq> AUDIO_MIXER_CLASS\<close> x1 n ci
      have "\<exists>c. x' = stores x ci c \<and> dev c = i \<and> type c = m_type m"
        by (cases "m_type m")
          (auto simp: devinfo_control_def Let_def claim_slot_stores update_claimed_slot)
      with Some True \<open>m_type m \<noteq> AUDIO_MIXER_CLASS\<close> show ?thesis by blast
    qed
  qed
qed

lemma catalog_ok_mono: "catalog_ok ds k x \<Longrightarrow> k \<le> k' \<Longrightarrow> catalog_ok ds k' x"
  unfolding catalog_ok_def by (meson order_less_le_trans)

lemma catalog_ok_stores:
  assumes ok: "catalog_ok ds k x" and ci: "ci < length (classes x)"
    and room: "ncontrols (classes x ! ci) < MAX_CONTROLS"
    and k: "k < length ds" and c: "dev c = int k" "type c = m_type (ds ! k)"
      "m_type (ds ! k) \<noteq> AUDIO_MIXER_CLASS" "m_mixer_class (ds ! k) = class_id (classes x ! ci)"
  shows "catalog_ok ds (Suc k) (stores x ci c)"
proof -
  let ?old = "classes x ! ci"
  let ?new = "?old\<lparr>controls := controls ?old @ [c]\<rparr>"
  have old: "?old \<in> set (classes x)" using ci by simp
  have okS: "catalog_ok ds (Suc k) x" using ok by (rule catalog_ok_mono) simp
  have new: "ncontrols ?new \<le> MAX_CONTROLS \<and>
      (\<forall>ctl\<in>set (controls ?new). \<exists>i<Suc k. i < length ds \<and> dev ctl = int i \<and>
          type ctl = m_type (ds ! i) \<and> type ctl \<noteq> AUDIO_MIXER_CLASS \<and>
          m_mixer_class (ds ! i) = class_id ?new)"
  proof
    show "ncontrols ?new \<le> MAX_CONTROLS" using room by (simp add: ncontrols_def)
    show "\<forall>ctl\<in>set (controls ?new). \<exists>i<Suc k. i < length ds \<and> dev ctl = int i \<and>
          type ctl = m_type (ds ! i) \<and> type ctl \<noteq> AUDIO_MIXER_CLASS \<and>
          m_mixer_class (ds ! i) = class_id ?new"
    proof
      fix ctl
      assume "ctl \<in> set (controls ?new)"
      then consider "ctl \<in> set (controls ?old)" | "ctl = c" by auto
      then show "\<exists>i<Suc k. i < length ds \<and> dev ctl = int i \<and>
          type ctl = m_type (ds ! i) \<and> type ctl \<noteq> AUDIO_MIXER_CLASS \<and>
          m_mixer_class (ds ! i) = class_id ?new"
      proof cases
        case 1
        with okS old show ?thesis unfolding catalog_ok_def by simp
      next
        case 2
        with k c show ?thesis by (intro exI [of _ k]) simp
      qed
    qed
  qed
  have "\<forall>cl\<in>set (classes (stores x ci c)). ncontrols cl \<le> MAX_CONTROLS \<and>
      (\<forall>ctl\<in>set (controls cl). \<exists>i<Suc k. i < length ds \<and> dev ctl = int i \<and>
          type ctl = m_type (ds ! i) \<and> type ctl \<noteq> AUDIO_MIXER_CLASS \<and>
          m_mixer_class (ds ! i) = class_id cl)"
  proof
    fix cl
    assume "cl \<in> set (classes (stores x ci c))"
    then have "cl \<in> insert ?new (set (classes x))"
      using set_update_subset_insert [of "classes x" ci ?new] by (auto simp: stores_def)
    then consider "cl = ?new" | "cl \<in> set (classes x)" by blast
    then show "ncontrols cl \<le> MAX_CONTROLS \<and>
      (\<forall>ctl\<in>set (controls cl). \<exists>i<Suc k. i < length ds \<and> dev ctl = int i \<and>
          type ctl = m_type (ds ! i) \<and> type ctl \<noteq> AUDIO_MIXER_CLASS \<and>
          m_mixer_class (ds ! i) = class_id cl)"
    proof cases
      case 1
      with new show ?thesis by blast
    next
      case 2
      with okS show ?thesis unfolding catalog_ok_def by blast
    qed
  qed
  moreover have "nclasses (stores x ci c) \<le> MAX_CLASSES"
    using ok by (simp add: catalog_ok_def nclasses_def stores_def)
  ultimately show ?thesis unfolding catalog_ok_def by blast
qed

lemma devinfo_control_ok:
  assumes "catalog_ok ds k x" and "k < length ds"
    and "devinfo_control x (int k) (ds ! k) = Some (Inr x')"
  shows "catalog_ok ds (Suc k) x'"
proof -
  from devinfo_control_cases [OF assms(3)] consider "x' = x"
    | ci c where "aiomixer_get_class x (m_mixer_class (ds ! k)) = Some ci"
        "ncontrols (classes x ! ci) < MAX_CONTROLS" "x' = stores x ci c"
        "dev c = int k" "type c = m_type (ds ! k)" "m_type (ds ! k) \<noteq> AUDIO_MIXER_CLASS"
    by blast
  then show ?thesis
  proof cases
    case 1
    with assms(1) show ?thesis by (auto intro: catalog_ok_mono)
  next
    case 2
    from 2(1) have "ci < length (classes x)" by (rule aiomixer_get_class_bound)
    moreover from 2(1) have "m_mixer_class (ds ! k) = class_id (classes x ! ci)"
      by (simp add: aiomixer_get_class_id)
    ultimately show ?thesis
      using catalog_ok_stores [OF assms(1) _ 2(2) assms(2) 2(4,5,6)] 2(3) by simp
  qed
qed

lemma devinfo_controls_ok:
  "devinfo_controls ms (int k) x = Some (Inr x') \<Longrightarrow> ds = pre @ ms \<Longrightarrow> length pre = k \<Longrightarrow>
   catalog_ok ds k x \<Longrightarrow> catalog_ok ds (length ds) x'"
proof (induction ms arbitrary: k x pre)
  case Nil
  then show ?case by simp
next
  case (Cons m ms)
  from Cons.prems(2,3) have m: "ds ! k = m" and k: "k < length ds" by auto
  from Cons.prems(1) obtain x1 where
    x1: "devinfo_control x (int k) m = Some (Inr x1)"
    and rest: "devinfo_controls ms (int k + 1) x1 = Some (Inr x')"
    by (auto split: option.splits sum.splits)
  from devinfo_control_ok [OF Cons.prems(4) k] x1 m have ok: "catalog_ok ds (Suc k) x1" by simp
  have "devinfo_controls ms (int (Suc k)) x1 = Some (Inr x')"
    using rest by (simp add: add.commute)
  from Cons.IH [OF this _ _ ok, of "pre @ [m]"] Cons.prems(2,3) show ?case by simp
qed

lemma devinfo_classes_ok:
  "catalog_ok ds 0 (devinfo_classes ds (zero_aiomixer rows))"
proof -
  have "nclasses (devinfo_classes ds (zero_aiomixer rows)) \<le> MAX_CLASSES"
    by (intro devinfo_classes_nclasses) (simp add: zero_aiomixer_def nclasses_def)
  moreover have "\<forall>c\<in>set (classes (devinfo_classes ds (zero_aiomixer rows))). controls c = []"
    by (intro devinfo_classes_empty) (simp add: zero_aiomixer_def)
  ultimately show ?thesis by (simp add: catalog_ok_def ncontrols_def)
qed

lemma aiomixer_devinfo_ok:
  assumes "aiomixer_devinfo ds (zero_aiomixer rows) = Some (Inr x)"
  shows "nclasses x \<le> MAX_CLASSES"
    and "\<forall>c\<in>set (classes x). ncontrols c \<le> MAX_CONTROLS"
    and "\<forall>c\<in>set (classes x). \<forall>ctl\<in>set (controls c). \<exists>i<length ds. dev ctl = int i \<and>
           type ctl = m_type (ds ! i) \<and> type ctl \<noteq> AUDIO_MIXER_CLASS \<and>
           m_mixer_class (ds ! i) = class_id c"
proof -
  from assms have "devinfo_controls ds (int 0) (devinfo_classes ds (zero_aiomixer rows)) = Some (Inr x)"
    by (simp add: aiomixer_devinfo_def)
  from devinfo_controls_ok [OF this, of ds "[]"] devinfo_classes_ok [of ds rows]
  have ok: "catalog_ok ds (length ds) x" by simp
  then show "nclasses x \<le> MAX_CLASSES" by (simp add: catalog_ok_def)
  from ok show "\<forall>c\<in>set (classes x). ncontrols c \<le> MAX_CONTROLS" by (simp add: catalog_ok_def)
  from ok show "\<forall>c\<in>set (classes x). \<forall>ctl\<in>set (controls c). \<exists>i<length ds. dev ctl = int i \<and>
           type ctl = m_type (ds ! i) \<and> type ctl \<noteq> AUDIO_MIXER_CLASS \<and>
           m_mixer_class (ds ! i) = class_id c"
    unfolding catalog_ok_def by blast
qed

lemma devinfo_control_no_parent:
  "m_prev m = - 1 \<Longrightarrow> \<exists>x'. devinfo_control x i m = Some (Inr x')"
  by (cases "m_type m")
    (simp_all add: devinfo_control_def set_name_def Let_def split: option.split)

lemma devinfo_controls_no_parent:
  "\<forall>m\<in>set ms. m_prev m = - 1 \<Longrightarrow> \<exists>x'. devinfo_controls ms i x = Some (Inr x')"
proof (induction ms arbitrary: i x)
  case Nil
  then show ?case by simp
next
  case (Cons m ms)
  then obtain x1 where "devinfo_control x i m = Some (Inr x1)"
    using devinfo_control_no_parent [of m x i] by auto
  moreover from Cons obtain x' where "devinfo_controls ms (i + 1) x1 = Some (Inr x')"
    by fastforce
  ultimately show ?case by simp
qed

lemma aiomixer_devinfo_no_parent:
  "\<forall>m\<in>set ds. m_prev m = - 1 \<Longrightarrow> \<exists>x. aiomixer_devinfo ds x0 = Some (Inr x)"
  by (simp add: aiomixer_devinfo_def devinfo_controls_no_parent)

section \<open>The parent chain\<close>

text \<open>
  Claim C5 asks that following \<^verbatim>\<open>prev\<close> to the root of a chain always ends and
  never reads a missing control. \<^verbatim>\<open>find_root_control\<close> does not keep that. In
  \<open>forward_parent\<close> the enum at index 1 names index 2, a control the second loop has not
  stored yet: \<^verbatim>\<open>aiomixer_get_control\<close> returns \<^verbatim>\<open>NULL\<close> and the loop reads
  \<^verbatim>\<open>ctrl->prev\<close> through it. In \<open>parent_zero\<close> the enum names index 0, which is no
  control: the lookup finds the slot just counted for the enum itself (\<open>dev\<close> and
  \<open>prev\<close> still 0), and the loop goes from that slot to that slot for ever.
\<close>

theorem find_root_control_fails:
  "find_root_control (claim_slot (devinfo_classes forward_parent (zero_aiomixer 24)) 0) 2 =
     Some (Inl NullDeref) \<and>
   find_root_control (claim_slot (devinfo_classes parent_zero (zero_aiomixer 24)) 0) 0 = None"
proof
  show "find_root_control (claim_slot (devinfo_classes forward_parent (zero_aiomixer 24)) 0) 2 =
     Some (Inl NullDeref)"
    by (simp add: devinfo_eval find_root_loop.simps)
  show "find_root_control (claim_slot (devinfo_classes parent_zero (zero_aiomixer 24)) 0) 0 = None"
    using parent_zero_diverges by (simp add: parent_zero_slot_def)
qed

section \<open>Building the catalog\<close>

text \<open>
  Claim C7 asks that \<^verbatim>\<open>aiomixer_devinfo\<close> completes for every descriptor sequence.
  For \<open>forward_parent\<close> it ends in the read through \<^verbatim>\<open>NULL\<close>, and for
  \<open>parent_zero\<close> it does not return.
\<close>

theorem aiomixer_devinfo_fails:
  "aiomixer_devinfo forward_parent (zero_aiomixer 24) = Some (Inl NullDeref) \<and>
   aiomixer_devinfo parent_zero (zero_aiomixer 24) = None"
proof
  show "aiomixer_devinfo forward_parent (zero_aiomixer 24) = Some (Inl NullDeref)"
    by (simp add: devinfo_eval find_root_loop.simps)
  have "devinfo_classes parent_zero (zero_aiomixer 24) =
      \<lparr>classes = [\<lparr>class_name = ''outputs'', class_id = 0, controls = []\<rparr>],
        class_index = 0, control_index = 0, top_control = 0, class_buttons = 0, screen_rows = 24\<rparr>"
    by (simp add: devinfo_eval)
  moreover have "aiomixer_get_class \<lparr>classes = [\<lparr>class_name = ''outputs'', class_id = 0, controls = []\<rparr>],
        class_index = 0, control_index = 0, top_control = 0, class_buttons = 0, screen_rows = 24\<rparr> 0 = Some 0"
    by (simp add: aiomixer_get_class_def)
  ultimately show "aiomixer_devinfo parent_zero (zero_aiomixer 24) = None"
    using parent_zero_diverges
    by (simp add: parent_zero_slot_def aiomixer_devinfo_def parent_zero_def descriptor_def
        devinfo_control_def set_name_def ncontrols_def MAX_CONTROLS_def)
qed

section \<open>The name of a control\<close>




section \<open>Lemmas on the key callbacks\<close>

text \<open>
  The directions that do cycle as intended: right, and left from any button but the
  first.
\<close>

lemma class_right_cycles:
  assumes "0 \<le> class_buttons x" and "class_buttons x < int (nclasses x)"
    and "nclasses x \<le> MAX_CLASSES"
  shows "key_callback_class_buttons x KEY_RIGHT =
           Inr (Return False
             (x\<lparr>class_index := nat ((class_buttons x + 1) mod int (nclasses x))\<rparr>))"
proof -
  from assms have "class_buttons x + 1 < 2 ^ 32" by (simp add: MAX_CLASSES_def)
  with assms(1) have "to_unsigned (class_buttons x + 1) = nat (class_buttons x + 1)"
    by (simp add: to_unsigned_def)
  moreover have "nat (class_buttons x + 1) mod nclasses x =
      nat ((class_buttons x + 1) mod int (nclasses x))"
    using assms(1) by (simp add: nat_mod_distrib)
  moreover from assms(1,2) have "nclasses x \<noteq> 0" by auto
  ultimately show ?thesis
    by (simp add: key_callback_class_buttons_def)
qed

lemma class_left_steps_back:
  assumes "1 \<le> class_buttons x" and "class_buttons x < int (nclasses x)"
    and "nclasses x \<le> MAX_CLASSES"
  shows "key_callback_class_buttons x KEY_LEFT =
           Inr (Return False (x\<lparr>class_index := nat (class_buttons x - 1)\<rparr>))"
proof -
  from assms have "class_buttons x - 1 < 2 ^ 32" by (simp add: MAX_CLASSES_def)
  with assms(1) have "to_unsigned (class_buttons x - 1) = nat (class_buttons x - 1)"
    by (simp add: to_unsigned_def)
  moreover from assms have "nat (class_buttons x - 1) < nclasses x" by linarith
  moreover from assms(1,2) have "nclasses x \<noteq> 0" by auto
  ultimately show ?thesis
    by (simp add: key_callback_class_buttons_def)
qed

lemma member_right_cycles:
  assumes "0 \<le> currentButton w" and "currentButton w < buttonCount w"
    and "buttonCount w = int (length (e_member (control_slot (current_class x) (control_index x))))"
    and "buttonCount w \<le> 32"
    and "type (control_slot (current_class x) (control_index x)) = AUDIO_MIXER_ENUM"
  shows "key_callback_control_buttons wr x w (Char CHR ''l'') =
           Inr (set_enum wr (dev (control_slot (current_class x) (control_index x)))
                  (snd (e_member (control_slot (current_class x) (control_index x)) !
                     nat ((currentButton w + 1) mod buttonCount w))) @
                [Buttonbox_set ((currentButton w + 1) mod buttonCount w)],
                Return False x)"
proof -
  let ?c = "(currentButton w + 1) mod buttonCount w"
  from assms(1,2) have pos: "0 < buttonCount w" by linarith
  with assms(1) have sm: "(currentButton w + 1) smod buttonCount w = ?c"
    by (simp add: smod_mod_positive)
  from pos have c: "0 \<le> ?c" "?c < buttonCount w" by simp_all
  with assms(3,4) have "member_at (e_member (control_slot (current_class x) (control_index x))) ?c =
      Inr (e_member (control_slot (current_class x) (control_index x)) ! nat ?c)"
    by (simp add: member_at_def nat_less_iff)
  with assms(5) pos sm show ?thesis
    by (simp add: key_callback_control_buttons_def commit_member_def Let_def)
qed

section \<open>Left and right in the class selector\<close>

text \<open>
  Claim C8 asks that the left key on class 0 of \<open>n\<close> classes selects class \<open>n - 1\<close>.
  With three classes and the selector on class 0, \<^verbatim>\<open>current - 1\<close> becomes the
  \<^verbatim>\<open>unsigned\<close> 4294967295 before the remainder is taken, and 4294967295 is a
  multiple of 3: the callback selects class 0, not class 2.
\<close>

theorem class_left_from_first:
  "key_callback_class_buttons three_classes KEY_LEFT = Inr (Return False three_classes) \<and>
   class_index three_classes = 0 \<and> nclasses three_classes = 3 \<and> class_buttons three_classes = 0 \<and>
   to_unsigned (class_buttons three_classes - 1) = 4294967295 \<and>
   (class_buttons three_classes - 1) mod int (nclasses three_classes) = 2"
  by (simp add: key_callback_class_buttons_def three_classes_def to_unsigned_def nclasses_def)

section \<open>Left and right in an enum or a set\<close>

text \<open>
  Claim C9 asks that the left key on member 0 of \<open>m\<close> members moves to member
  \<open>m - 1\<close> and writes its value. With three members and the button box on member 0,
  the \<^verbatim>\<open>int\<close> remainder of \<open>- 1\<close> by 3 is \<open>- 1\<close>: the callback reads
  \<^verbatim>\<open>member[-1]\<close>, which is outside the array, for the value it writes.
\<close>

theorem member_left_from_first:
  "key_callback_control_buttons True ((outputs_mixer 24)\<lparr>control_index := 1\<rparr>)
     \<lparr>currentButton = 0, buttonCount = 3\<rparr> (Char CHR ''h'') = Inl OutOfBounds \<and>
   key_callback_control_buttons True ((outputs_mixer 24)\<lparr>control_index := 1\<rparr>)
     \<lparr>currentButton = 0, buttonCount = 3\<rparr> KEY_LEFT = Inl OutOfBounds \<and>
   (0 - 1 :: int) smod 3 = - 1"
  by (simp add: key_callback_control_buttons_def example_defs commit_member_def member_at_def
      signed_modulo_int_def)

end
